theory Spec2Isabelle
  imports Main
begin

section \<open>Go strings\<close>

text \<open>
  A Go string is a sequence of bytes; \<^typ>\<open>string\<close> is a list of 8-bit characters.
  The functions of package \<open>strings\<close> that the sources call are written out here.
\<close>

text \<open>\<open>strings.HasPrefix(s, prefix)\<close>: \<open>len(s) >= len(prefix) && s[:len(prefix)] == prefix\<close>.\<close>

definition HasPrefix :: "string \<Rightarrow> string \<Rightarrow> bool" where
  "HasPrefix s pre = (length pre \<le> length s \<and> take (length pre) s = pre)"

text \<open>\<open>strings.IndexByte(s, c)\<close>: the index of the first \<open>c\<close> in \<open>s\<close>, or \<open>-1\<close>.\<close>

fun IndexByte :: "string \<Rightarrow> char \<Rightarrow> int" where
  "IndexByte [] c = - 1"
| "IndexByte (x # xs) c =
     (if x = c then 0
      else (let r = IndexByte xs c in if r < 0 then - 1 else r + 1))"

text \<open>\<open>strings.LastIndexByte(s, c)\<close>: the index of the last \<open>c\<close> in \<open>s\<close>, or \<open>-1\<close>.\<close>

definition LastIndexByte :: "string \<Rightarrow> char \<Rightarrow> int" where
  "LastIndexByte s c =
     (let r = IndexByte (rev s) c in if r < 0 then - 1 else int (length s) - 1 - r)"

text \<open>\<open>strings.Contains(s, substr)\<close>: \<open>substr\<close> occurs in \<open>s\<close> at some offset.\<close>

fun Contains :: "string \<Rightarrow> string \<Rightarrow> bool" where
  "Contains [] substr = (substr = [])"
| "Contains (x # xs) substr = (HasPrefix (x # xs) substr \<or> Contains xs substr)"

section \<open>\<open>encoding/base64\<close>: \<open>StdEncoding.DecodeString\<close>\<close>

text \<open>
  The decoder of the Go standard library, for the standard alphabet with padding
  \<open>=\<close>, not strict: carriage returns and line feeds are skipped wherever they stand,
  the rest is read in quanta of four characters, only the last quantum may end in one
  or two padding characters, and anything else is the error \<open>CorruptInputError\<close>
  (here \<open>None\<close>). The low bits of a padded quantum are not checked.
\<close>

definition encodeStd :: string where
  "encodeStd = ''ABCDEFGHIJKLMNOPQRSTUVWXYZabcdefghijklmnopqrstuvwxyz0123456789+/''"

text \<open>
  \<open>decodeMap[encodeStd[i]] = i\<close>, and the characters outside the alphabet are invalid
  (\<open>0xff\<close> in Go, \<open>None\<close> here). No character stands twice in the alphabet.
\<close>

definition decodeMap :: "char \<Rightarrow> nat option" where
  "decodeMap c = (let i = IndexByte encodeStd c in if i < 0 then None else Some (nat i))"

definition padChar :: char where
  "padChar = CHR ''=''"

text \<open>The bytes of the 24-bit value of a quantum, most significant first.\<close>

definition quantum :: "nat \<Rightarrow> nat \<Rightarrow> nat \<Rightarrow> nat \<Rightarrow> nat" where
  "quantum a b c d = a * 262144 + b * 4096 + c * 64 + d"

definition byte0 :: "nat \<Rightarrow> char" where
  "byte0 v = char_of (v div 65536)"

definition byte1 :: "nat \<Rightarrow> char" where
  "byte1 v = char_of (v div 256)"

definition byte2 :: "nat \<Rightarrow> char" where
  "byte2 v = char_of v"

fun decodeQuanta :: "string \<Rightarrow> string option" where
  "decodeQuanta [] = Some []"
| "decodeQuanta (a # b # c # d # rest) =
     (case (decodeMap a, decodeMap b) of
        (Some x, Some y) \<Rightarrow>
          (case decodeMap c of
             Some z \<Rightarrow>
               (case decodeMap d of
                  Some u \<Rightarrow>
                    (let v = quantum x y z u in
                     case decodeQuanta rest of
                       None \<Rightarrow> None
                     | Some bs \<Rightarrow> Some (byte0 v # byte1 v # byte2 v # bs))
                | None \<Rightarrow>
                    if d = padChar \<and> rest = []
                    then (let v = quantum x y z 0 in Some [byte0 v, byte1 v])
                    else None)
           | None \<Rightarrow>
               if c = padChar \<and> d = padChar \<and> rest = []
               then (let v = quantum x y 0 0 in Some [byte0 v])
               else None)
      | _ \<Rightarrow> None)"
| "decodeQuanta _ = None"

definition DecodeString :: "string \<Rightarrow> string option" where
  "DecodeString s = decodeQuanta (filter (\<lambda>c. c \<noteq> CHR 0x0A \<and> c \<noteq> CHR 0x0D) s)"

section \<open>The forwarding proxy: parsing credentials\<close>

text \<open>
  \<open>parseAuth\<close> splits \<open>user:pass\<close> at the first colon. The named results of the Go
  function start as the zero values, which a bare \<open>return\<close> gives back.
\<close>

definition parseAuth :: "string \<Rightarrow> string \<times> string \<times> bool" where
  "parseAuth a =
     (let s = IndexByte a (CHR '':'') in
      if s < 0 then ([], [], False)
      else (take (nat s) a, drop (nat (s + 1)) a, True))"

text \<open>
  \<open>parseBasicProxyAuth\<close> as in \<open>forwardingproxy.go\<close>, where the split at the colon is
  written inline.
\<close>

definition parseBasicProxyAuth :: "string \<Rightarrow> string \<times> string \<times> bool" where
  "parseBasicProxyAuth authz =
     (let prefix = ''Basic '' in
      if \<not> HasPrefix authz prefix then ([], [], False)
      else
        (case DecodeString (drop (length prefix) authz) of
           None \<Rightarrow> ([], [], False)
         | Some cs \<Rightarrow>
             (let s = IndexByte cs (CHR '':'') in
              if s < 0 then ([], [], False)
              else (take (nat s) cs, drop (nat (s + 1)) cs, True))))"

text \<open>The later revision of the same function, which calls \<open>parseAuth\<close>.\<close>

definition parseBasicProxyAuth_parseAuth :: "string \<Rightarrow> string \<times> string \<times> bool" where
  "parseBasicProxyAuth_parseAuth authz =
     (let prefix = ''Basic '' in
      if \<not> HasPrefix authz prefix then ([], [], False)
      else
        (case DecodeString (drop (length prefix) authz) of
           None \<Rightarrow> ([], [], False)
         | Some c \<Rightarrow> parseAuth c))"

section \<open>Requests, control messages and effects\<close>

text \<open>
  The fields of \<open>http.Request\<close> that the sources read. \<open>Header\<close> is Go's
  \<open>map[string][]string\<close>; \<open>Header.Get\<close> gives the first value stored under a key
  and the empty string when there is none.
\<close>

record Request =
  Method :: string
  Host :: string
  RemoteAddr :: string
  URL_Scheme :: string
  URL_Host :: string
  URL_Path :: string
  Header :: "string \<rightharpoonup> string list"

definition Header_Get :: "(string \<rightharpoonup> string list) \<Rightarrow> string \<Rightarrow> string" where
  "Header_Get h key = (case h key of None \<Rightarrow> [] | Some [] \<Rightarrow> [] | Some (v # _) \<Rightarrow> v)"

text \<open>
  Modelled from the spec: package \<open>proto\<close> is not among the sources. The spec gives the
  protocol of a control message as the enumeration HTTP, HTTP-CONNECT and raw TCP over
  a listener; the last carries the listener's network name, since the server fills the
  field with \<open>l.Addr().Network()\<close>. The only action is \<open>RequestClientSession\<close>.
\<close>

datatype Protocol = HTTP | HTTPCONNECT | Network string

datatype Action = RequestClientSession

text \<open>The control message as the forwarding proxy (package \<open>tunnel\<close>) reads it.\<close>

record ProxyMessage =
  ForwardedProto :: Protocol
  ForwardedHost :: string
  MsgRemoteAddr :: string

text \<open>The control message as the server (package \<open>h2tun\<close>) builds it.\<close>

record ControlMessage =
  Action :: Action
  Protocol :: Protocol
  ForwardedFor :: string
  ForwardedBy :: string
  URLPath :: string

text \<open>
  What the forwarding proxy does to the world, in the order it does it. \<open>Relay\<close> is one
  observable step of a \<open>transfer\<close> call in the given direction: \<open>Up\<close> copies from the
  source stream to the destination, \<open>Down\<close> from the destination to the sink.
\<close>

datatype Direction = Up | Down

datatype Event =
    Log string
  | Println string
  | Error string nat
  | ReverseProxy Request
  | DialTimeout string
  | SetReadDeadline
  | SetWriteDeadline
  | WriteResponse nat
  | Flush
  | Relay Direction string
  | DestClose
  | SourceClose

datatype Outcome = Returned | Panicked

section \<open>The forwarding proxy\<close>

record ForwardingProxy =
  localAddr :: string
  AuthUser :: string
  AuthPass :: string
  DestDialTimeout :: int
  DestReadTimeout :: int
  DestWriteTimeout :: int
  ClientReadTimeout :: int
  ClientWriteTimeout :: int

text \<open>
  An \<open>http.ResponseWriter\<close> is known here by whether its dynamic type is also an
  \<open>http.Flusher\<close>. The \<open>io.Writer\<close> handed to \<open>Proxy\<close> may be something else; the
  interface value \<open>nil\<close> is \<open>None\<close>, and a method call on it panics.
\<close>

record ResponseWriter =
  Flusher :: bool

datatype Writer = HttpResponseWriter ResponseWriter | OtherWriter

text \<open>
  The surroundings of one call: what \<open>http.ReadRequest\<close> finds in the source stream,
  the error of \<open>net.DialTimeout\<close> for a host (if any), the steps of the two
  \<open>transfer\<close> calls, and the order in which the scheduler runs the two goroutines
  (\<open>True\<close>: the calling one). \<open>setXForwardedFor\<close> and the three-argument
  \<open>transfer\<close> of package \<open>tunnel\<close> are not among the sources and stay parameters.
\<close>

record Env =
  ReadRequest :: "string + Request"
  setXForwardedFor :: "(string \<rightharpoonup> string list) \<Rightarrow> string \<Rightarrow> (string \<rightharpoonup> string list)"
  Dial :: "string \<Rightarrow> string option"
  transferUp :: "string list"
  transferDown :: "string list"
  schedule :: "bool list"

text \<open>
  Two goroutines between a \<open>go\<close> statement and the receive from the channel the
  started one closes: the steps of each keep their order, the scheduler picks who moves.
  When the schedule runs out the calling goroutine runs first.
\<close>

fun interleave :: "bool list \<Rightarrow> 'a list \<Rightarrow> 'a list \<Rightarrow> 'a list" where
  "interleave s [] ys = ys"
| "interleave s (x # xs) [] = x # xs"
| "interleave [] (x # xs) (y # ys) = x # xs @ y # ys"
| "interleave (True # s) (x # xs) (y # ys) = x # interleave s xs (y # ys)"
| "interleave (False # s) (x # xs) (y # ys) = y # interleave s (x # xs) ys"

text \<open>\<open>http.Error(w, error, code)\<close>: writes the status and the text to \<open>w\<close>.\<close>

definition http_Error :: "ResponseWriter option \<Rightarrow> string \<Rightarrow> nat \<Rightarrow> Event list \<times> Outcome" where
  "http_Error w err code =
     (case w of None \<Rightarrow> ([], Panicked) | Some _ \<Rightarrow> ([Error err code], Returned))"

definition StatusText :: "nat \<Rightarrow> string" where
  "StatusText code =
     (if code = 405 then ''Method Not Allowed''
      else if code = 407 then ''Proxy Authentication Required''
      else if code = 502 then ''Bad Gateway''
      else if code = 503 then ''Service Unavailable''
      else [])"

definition after :: "Event list \<Rightarrow> Event list \<times> Outcome \<Rightarrow> Event list \<times> Outcome" where
  "after evs res = (evs @ fst res, snd res)"

definition handleTunneling ::
  "ForwardingProxy \<Rightarrow> Env \<Rightarrow> ResponseWriter option \<Rightarrow> Request \<Rightarrow> Event list \<times> Outcome" where
  "handleTunneling p env w r =
     (if Method r \<noteq> ''CONNECT'' then http_Error w (StatusText 405) 405
      else
        (case Dial env (Host r) of
           Some err \<Rightarrow> after [DialTimeout (Host r)] (http_Error w err 503)
         | None \<Rightarrow>
             (let connected =
                [DialTimeout (Host r), SetReadDeadline, SetWriteDeadline,
                 Println ''Connected to host'']
              in
              case w of
                None \<Rightarrow> (connected, Panicked)
              | Some rw \<Rightarrow>
                  if \<not> Flusher rw then (connected @ [WriteResponse 200], Panicked)
                  else
                    (connected @ [WriteResponse 200, Flush, Println ''Flushed to host'']
                       @ interleave (schedule env)
                           (map (Relay Up) (transferUp env))
                           (map (Relay Down) (transferDown env))
                       @ [Println ''Done for'', DestClose, SourceClose],
                     Returned))))"

definition ForwardingProxy_ServeHTTP ::
  "ForwardingProxy \<Rightarrow> Env \<Rightarrow> ResponseWriter option \<Rightarrow> Request \<Rightarrow> Event list \<times> Outcome" where
  "ForwardingProxy_ServeHTTP p env w r =
     (let rest =
        (if URL_Scheme r = ''http'' then ([ReverseProxy r], Returned)
         else handleTunneling p env w r)
      in
      after [Log ''Incoming request host'']
        (if AuthUser p \<noteq> [] \<and> AuthPass p \<noteq> [] then
           (case parseBasicProxyAuth (Header_Get (Header r) ''Proxy-Authorization'') of
              (user, pass, ok) \<Rightarrow>
                if \<not> ok \<or> user \<noteq> AuthUser p \<or> pass \<noteq> AuthPass p
                then http_Error w (StatusText 407) 407
                else rest)
         else rest))"

definition Proxy ::
  "ForwardingProxy \<Rightarrow> Env \<Rightarrow> Writer \<Rightarrow> ProxyMessage \<Rightarrow> Event list \<times> Outcome" where
  "Proxy p env w msg =
     (case ForwardedProto msg of
        HTTPCONNECT \<Rightarrow>
          (let (rw, asserted) =
             (case w of
                HttpResponseWriter x \<Rightarrow> (Some x, [])
              | OtherWriter \<Rightarrow> (None, [Log ''expected http.ResponseWriter'']))
           in
           case ReadRequest env of
             Inl err \<Rightarrow> (asserted @ [Log ''failed to read request''], Returned)
           | Inr req \<Rightarrow>
               after asserted
                 (ForwardingProxy_ServeHTTP p env rw
                    (req\<lparr>Header := setXForwardedFor env (Header req) (MsgRemoteAddr msg),
                         URL_Host := ForwardedHost msg\<rparr>)))
      | _ \<Rightarrow> ([Log ''unsupported protocol''], Returned))"

section \<open>The server: helpers\<close>

text \<open>\<open>url(host)\<close> is \<open>fmt.Sprint("https://", host)\<close>.\<close>

definition url :: "string \<Rightarrow> string" where
  "url host = ''https://'' @ host"

text \<open>
  An endpoint of a copy is known by a name and by which of the optional interfaces
  \<open>closeWriter\<close> and \<open>closeReader\<close> its dynamic type has.
\<close>

record Endpoint =
  name :: string
  closeWriter :: bool
  closeReader :: bool

text \<open>What the server does to the world, in the order it does it.\<close>

datatype H2Event =
    Logged string
  | LoggedMsg string ControlMessage
  | CloseWrite string
  | CloseRead string
  | Close string
  | Go_handleClient string
  | Go_proxyConn string string ControlMessage
  | Go_Write
  | RoundTrip string string ControlMessage
  | CopyHeader
  | WriteHeader nat
  | HttpError string nat

text \<open>
  \<open>transfer(side, dst, src)\<close>. The result of \<open>io.Copy\<close> is the number of bytes copied
  and the error, if any; the function itself returns nothing.
\<close>

definition transfer :: "string \<Rightarrow> Endpoint \<Rightarrow> Endpoint \<Rightarrow> int \<times> string option \<Rightarrow> H2Event list" where
  "transfer side dst src copied =
     (case copied of
        (n, err) \<Rightarrow>
          (case err of None \<Rightarrow> [] | Some e \<Rightarrow> [Logged ''%s: copy error: %s''])
          @ (if closeWriter dst then [CloseWrite (name dst)] else [])
          @ (if closeReader src then [CloseRead (name src)] else [Close (name src)])
          @ [Logged ''Coppied %d bytes from %s''])"

section \<open>\<open>net.SplitHostPort\<close> and \<open>trimPort\<close>\<close>

text \<open>
  \<open>net.SplitHostPort\<close> of the Go standard library, branch by branch. The port starts
  after the last colon; a host in square brackets loses them; a colon in an
  unbracketed host and a bracket anywhere else are errors. On an error the host and
  the port returned are empty.
\<close>

datatype AddrError =
    missingPort
  | tooManyColons
  | missingBracket
  | unexpectedOpen
  | unexpectedClose

definition SplitHostPort :: "string \<Rightarrow> AddrError + string \<times> string" where
  "SplitHostPort hostport =
     (let i = LastIndexByte hostport (CHR '':'') in
      if i < 0 then Inl missingPort
      else
        (let finish = (\<lambda>host j k.
               if IndexByte (drop j hostport) (CHR ''['') \<ge> 0 then Inl unexpectedOpen
               else if IndexByte (drop k hostport) (CHR '']'') \<ge> 0 then Inl unexpectedClose
               else Inr (host, drop (nat (i + 1)) hostport))
         in
         if hd hostport = CHR ''['' then
           (let end' = IndexByte hostport (CHR '']'') in
            if end' < 0 then Inl missingBracket
            else if end' + 1 = int (length hostport) then Inl missingPort
            else if end' + 1 = i then
              finish (take (nat end' - 1) (drop 1 hostport)) 1 (nat (end' + 1))
            else if hostport ! nat (end' + 1) = CHR '':'' then Inl tooManyColons
            else Inl missingPort)
         else
           (let host = take (nat i) hostport in
            if IndexByte host (CHR '':'') \<ge> 0 then Inl tooManyColons
            else finish host 0 0)))"

text \<open>\<open>host, _, _ = net.SplitHostPort(hostPort)\<close>, then the input when \<open>host\<close> is empty.\<close>

definition trimPort :: "string \<Rightarrow> string" where
  "trimPort hostPort =
     (let host = (case SplitHostPort hostPort of Inl _ \<Rightarrow> [] | Inr (h, _) \<Rightarrow> h) in
      if host = [] then hostPort else host)"

section \<open>The server: control connections\<close>

record AllowedClient =
  ID :: string
  ClientHost :: string
  Listeners :: "string list"

text \<open>
  A connection is known by a name, by whether its dynamic type is \<open>*tls.Conn\<close>, and
  by its two addresses.
\<close>

record Conn =
  conn :: string
  isTLS :: bool
  connRemoteAddr :: string
  connLocalAddr :: string

definition checkID :: "AllowedClient list \<Rightarrow> string \<Rightarrow> AllowedClient option" where
  "checkID AllowedClients cert = find (\<lambda>c. cert = ID c) AllowedClients"

text \<open>
  Modelled from the spec: the connection pool (\<open>connPool\<close>, with \<open>addHostConn\<close> and
  \<open>markHostDead\<close>) is not among the sources. The spec's registry maps a host to its
  live connection; \<open>Add\<close> fails if the host key is malformed and otherwise always
  succeeds, replacing any prior entry for the host; \<open>Invalidate\<close> removes the entry
  for the host if present. Which keys are malformed is a parameter.
\<close>

type_synonym connPool = "string \<rightharpoonup> string"

definition addHostConn :: "(string \<Rightarrow> bool) \<Rightarrow> connPool \<Rightarrow> string \<Rightarrow> string \<Rightarrow> string + connPool" where
  "addHostConn malformed pool host c =
     (if malformed host then Inl ''invalid host'' else Inr (pool(host \<mapsto> c)))"

definition markHostDead :: "connPool \<Rightarrow> string \<Rightarrow> connPool" where
  "markHostDead pool host = pool(host := None)"

text \<open>
  The surroundings of one handshake: the result of \<open>peerID\<close>, whether
  \<open>http.NewRequest\<close> refuses a URL, whether \<open>SetDeadline\<close> fails, which host keys the
  pool refuses, and the result of the probe \<open>httpClient.Do\<close>: an error or the
  response's status code.
\<close>

record Handshake =
  peerID :: "string + string"
  NewRequestFails :: "string \<Rightarrow> bool"
  SetDeadlineFails :: bool
  malformedHost :: "string \<Rightarrow> bool"
  Do :: "string + nat"

datatype Verdict = Connected | Rejected | Crashed

text \<open>The code after the label \<open>reject\<close>.\<close>

definition reject ::
  "connPool \<Rightarrow> Conn \<Rightarrow> AllowedClient option \<Rightarrow> H2Event list \<Rightarrow> Verdict \<times> connPool \<times> H2Event list" where
  "reject pool c client evs =
     (Rejected,
      (case client of None \<Rightarrow> pool | Some cl \<Rightarrow> markHostDead pool (ClientHost cl)),
      evs @ [Close (conn c)])"

text \<open>
  \<open>handleClient\<close>. The assertion \<open>conn.(*tls.Conn)\<close> has no \<open>ok\<close> result, so it
  panics on a connection of another type.
\<close>

definition handleClient ::
  "AllowedClient list \<Rightarrow> Handshake \<Rightarrow> connPool \<Rightarrow> Conn \<Rightarrow> Verdict \<times> connPool \<times> H2Event list" where
  "handleClient AllowedClients env pool c =
     (if \<not> isTLS c then (Crashed, pool, [])
      else
        (case peerID env of
           Inl err \<Rightarrow> reject pool c None [Logged ''Certificate error: %s'']
         | Inr cert \<Rightarrow>
             (case checkID AllowedClients cert of
                None \<Rightarrow> reject pool c None [Logged ''Unknown certificate: %q'']
              | Some client \<Rightarrow>
                  if NewRequestFails env (url (ClientHost client))
                  then reject pool c (Some client) [Logged ''Invalid host %q for client %q'']
                  else
                    (let deadline =
                       (if SetDeadlineFails env then [Logged ''Setting no deadline failed: %s'']
                        else [])
                     in
                     case addHostConn (malformedHost env) pool (ClientHost client) (conn c) of
                       Inl err \<Rightarrow>
                         reject pool c (Some client) (deadline @ [Logged ''Could not add host: %s''])
                     | Inr pool' \<Rightarrow>
                         (case Do env of
                            Inl err \<Rightarrow>
                              reject pool' c (Some client) (deadline @ [Logged ''Handshake failed %s''])
                          | Inr StatusCode \<Rightarrow>
                              if StatusCode \<noteq> 200
                              then reject pool' c (Some client) (deadline @ [Logged ''Handshake failed''])
                              else (Connected, pool',
                                    deadline @ [Logged ''Client %q connected from %q'']))))))"

section \<open>The server: accept loops\<close>

text \<open>
  An accept loop runs against the results its listener's \<open>Accept\<close> gives, one per
  iteration. When those known so far are used up the loop has not returned: it is
  blocked in the next \<open>Accept\<close>.
\<close>

datatype Accept = AcceptError string | AcceptConn Conn

datatype Loop = LoopReturned | Accepting

fun listenControl :: "Accept list \<Rightarrow> H2Event list \<times> Loop" where
  "listenControl [] = ([], Accepting)"
| "listenControl (AcceptError err # rest) =
     (if Contains err ''use of closed network connection''
      then ([Logged ''Accept %s control connection to %q failed: %s''], LoopReturned)
      else
        (case listenControl rest of
           (evs, l) \<Rightarrow> (Logged ''Accept %s control connection to %q failed: %s'' # evs, l)))"
| "listenControl (AcceptConn c # rest) =
     (case listenControl rest of
        (evs, l) \<Rightarrow>
          (Logged ''Accepted %s control connection from %q to %q''
             # Go_handleClient (conn c) # evs, l))"

text \<open>
  \<open>listen(l, client)\<close>, for a listener whose address has the network name \<open>network\<close>.
\<close>

fun listen :: "string \<Rightarrow> AllowedClient \<Rightarrow> Accept list \<Rightarrow> H2Event list \<times> Loop" where
  "listen network client [] = ([], Accepting)"
| "listen network client (AcceptError err # rest) =
     (if Contains err ''use of closed network connection''
      then ([Logged ''Accept %s connection to %q failed: %s''], LoopReturned)
      else
        (case listen network client rest of
           (evs, l) \<Rightarrow> (Logged ''Accept %s connection to %q failed: %s'' # evs, l)))"
| "listen network client (AcceptConn c # rest) =
     (let msg = \<lparr>Action = RequestClientSession,
                  Protocol = Network network,
                  ForwardedFor = connRemoteAddr c,
                  ForwardedBy = connLocalAddr c,
                  URLPath = []\<rparr>
      in
      case listen network client rest of
        (evs, l) \<Rightarrow>
          (Logged ''Accepted %s connection from %q to %q''
             # Go_proxyConn (ClientHost client) (conn c) msg # evs, l))"

section \<open>The server: the HTTP entry point\<close>

text \<open>
  The surroundings of one proxied request: the error of \<open>http.NewRequest\<close> for a URL
  (if any), the result of \<open>httpClient.Do\<close> for the request to a URL carrying a control
  message (an error, or a response whose body is then read), what \<open>http.ReadResponse\<close>
  finds in that body (an error, or the inner response: its status code and, when it
  has one, its body), and what \<open>io.Copy\<close> returns for that body.
\<close>

record Inner =
  StatusCode :: nat
  Body :: "Endpoint option"

record Upstream =
  NewRequestError :: "string \<Rightarrow> string option"
  ClientDo :: "string \<Rightarrow> ControlMessage \<Rightarrow> string option"
  ReadResponse :: "string + Inner"
  Copy :: "int \<times> string option"

text \<open>
  \<open>proxyHTTP\<close>: the events and the error returned (\<open>None\<close> for \<open>nil\<close>). The two
  deferred calls close the pipe's ends on every return, the writer's first.
\<close>

definition proxyHTTP ::
  "Upstream \<Rightarrow> string \<Rightarrow> Endpoint \<Rightarrow> Request \<Rightarrow> ControlMessage \<Rightarrow> H2Event list \<times> string option" where
  "proxyHTTP env host w r msg =
     (let deferred = [Close ''pw'', Close ''pr''] in
      case NewRequestError env (url host) of
        Some err \<Rightarrow>
          (LoggedMsg ''Start %s'' msg # deferred, Some (''request creation error: '' @ err))
      | None \<Rightarrow>
          (let sent = [LoggedMsg ''Start %s'' msg, Go_Write, RoundTrip ''PUT'' (url host) msg] in
           case ClientDo env (url host) msg of
             Some err \<Rightarrow> (sent @ deferred, Some (''proxy request error: '' @ err))
           | None \<Rightarrow>
               (case ReadResponse env of
                  Inl err \<Rightarrow> (sent @ deferred, Some (''reading response error: '' @ err))
                | Inr inner \<Rightarrow>
                    (sent @ [CopyHeader, WriteHeader (StatusCode inner)]
                       @ (case Body inner of
                            None \<Rightarrow> []
                          | Some body \<Rightarrow> transfer ''remote to local'' w body (Copy env))
                       @ [LoggedMsg ''Done %s'' msg]
                       @ deferred,
                     None))))"

definition Server_ServeHTTP :: "Upstream \<Rightarrow> Endpoint \<Rightarrow> Request \<Rightarrow> H2Event list" where
  "Server_ServeHTTP env w r =
     (let msg = \<lparr>Action = RequestClientSession,
                  Protocol = HTTP,
                  ForwardedFor = RemoteAddr r,
                  ForwardedBy = Host r,
                  URLPath = URL_Path r\<rparr>
      in
      case proxyHTTP env (trimPort (Host r)) w r msg of
        (evs, None) \<Rightarrow> evs
      | (evs, Some err) \<Rightarrow> evs @ [LoggedMsg ''Error %s: %s'' msg, HttpError err 502])"

section \<open>Observations and concrete inputs\<close>

text \<open>The events of the server that close an endpoint, in half or in full.\<close>

fun closing :: "H2Event \<Rightarrow> bool" where
  "closing (CloseWrite _) = True"
| "closing (CloseRead _) = True"
| "closing (Close _) = True"
| "closing _ = False"

text \<open>
  A proxy with the credentials of the docstring and one without credentials; a
  \<open>CONNECT\<close> request for \<open>dest:443\<close> that carries no \<open>Proxy-Authorization\<close> header; a
  response writer that can flush; surroundings in which the destination answers the
  dial, the source stream relays two chunks, the destination one, and the scheduler
  runs the started goroutine first.
\<close>

definition proxy_with_credentials :: ForwardingProxy where
  "proxy_with_credentials =
     \<lparr>localAddr = [], AuthUser = ''Aladdin'', AuthPass = ''open sesame'',
      DestDialTimeout = 10, DestReadTimeout = 5, DestWriteTimeout = 5,
      ClientReadTimeout = 5, ClientWriteTimeout = 5\<rparr>"

definition proxy_without_credentials :: ForwardingProxy where
  "proxy_without_credentials =
     \<lparr>localAddr = [], AuthUser = [], AuthPass = [],
      DestDialTimeout = 10, DestReadTimeout = 5, DestWriteTimeout = 5,
      ClientReadTimeout = 5, ClientWriteTimeout = 5\<rparr>"

definition connect_request :: Request where
  "connect_request =
     \<lparr>Method = ''CONNECT'', Host = ''dest:443'', RemoteAddr = ''10.0.0.1:5000'',
      URL_Scheme = [], URL_Host = ''dest:443'', URL_Path = [], Header = Map.empty\<rparr>"

definition flushing_writer :: ResponseWriter where
  "flushing_writer = \<lparr>Flusher = True\<rparr>"

definition reachable :: Env where
  "reachable =
     \<lparr>ReadRequest = Inr connect_request,
      setXForwardedFor = (\<lambda>h addr. h(''X-Forwarded-For'' \<mapsto> [addr])),
      Dial = (\<lambda>host. None),
      transferUp = [''hello'', ''bye''],
      transferDown = [''welcome''],
      schedule = [False, True]\<rparr>"

definition http_message :: ProxyMessage where
  "http_message =
     \<lparr>ForwardedProto = HTTP, ForwardedHost = ''dest:443'', MsgRemoteAddr = ''10.0.0.1:5000''\<rparr>"

definition connect_message :: ProxyMessage where
  "connect_message =
     \<lparr>ForwardedProto = HTTPCONNECT, ForwardedHost = ''dest:443'',
      MsgRemoteAddr = ''10.0.0.1:5000''\<rparr>"

text \<open>
  One allowed client for the host \<open>a.example\<close>; a TLS connection; a handshake in which
  the certificate is that client's and the probe is answered with status 503.
\<close>

definition tenant :: AllowedClient where
  "tenant = \<lparr>ID = ''cert-a'', ClientHost = ''a.example'', Listeners = []\<rparr>"

definition control_conn :: Conn where
  "control_conn =
     \<lparr>conn = ''c1'', isTLS = True, connRemoteAddr = ''10.0.0.2:4000'',
      connLocalAddr = ''10.0.0.1:443''\<rparr>"

definition probe_503 :: Handshake where
  "probe_503 =
     \<lparr>peerID = Inr ''cert-a'', NewRequestFails = (\<lambda>u. False), SetDeadlineFails = False,
      malformedHost = (\<lambda>h. False), Do = Inr 503\<rparr>"

text \<open>
  A public request for \<open>a.example:8080\<close>, the sink of its response, and an upstream
  whose round trip fails.
\<close>

definition public_request :: Request where
  "public_request =
     \<lparr>Method = ''GET'', Host = ''a.example:8080'', RemoteAddr = ''10.0.0.3:6000'',
      URL_Scheme = [], URL_Host = [], URL_Path = ''/index'', Header = Map.empty\<rparr>"

definition public_sink :: Endpoint where
  "public_sink = \<lparr>name = ''w'', closeWriter = False, closeReader = False\<rparr>"

definition tcp_conn :: Endpoint where
  "tcp_conn = \<lparr>name = ''c'', closeWriter = True, closeReader = True\<rparr>"

definition dead_tunnel :: Upstream where
  "dead_tunnel =
     \<lparr>NewRequestError = (\<lambda>u. None), ClientDo = (\<lambda>u msg. Some ''no connection''),
      ReadResponse = Inl ''unused'', Copy = (0, None)\<rparr>"

section \<open>Properties\<close>

lemma IndexByte_neg_iff: "IndexByte s c < 0 \<longleftrightarrow> c \<notin> set s"
  by (induction s) (auto simp: Let_def)

lemma parseBasicProxyAuth_revisions_agree:
  "parseBasicProxyAuth_parseAuth authz = parseBasicProxyAuth authz"
  by (simp add: parseBasicProxyAuth_parseAuth_def parseBasicProxyAuth_def parseAuth_def Let_def
      split: option.splits)

subsection \<open>Parsing the \<open>Proxy-Authorization\<close> header\<close>

lemmas base64_eval = decodeMap_def encodeStd_def padChar_def quantum_def byte0_def byte1_def
  byte2_def char_of_def bit_Suc bit_0

lemma DecodeString_Aladdin:
  "DecodeString ''QWxhZGRpbjpvcGVuIHNlc2FtZQ=='' = Some ''Aladdin:open sesame''"
  by (simp add: DecodeString_def base64_eval)

lemma parseBasicProxyAuth_no_prefix:
  "\<not> HasPrefix authz ''Basic '' \<Longrightarrow> parseBasicProxyAuth authz = ([], [], False)"
  by (simp add: parseBasicProxyAuth_def Let_def)

lemma parseBasicProxyAuth_not_base64:
  "DecodeString (drop (length ''Basic '') authz) = None \<Longrightarrow>
     parseBasicProxyAuth authz = ([], [], False)"
  by (simp add: parseBasicProxyAuth_def Let_def)

lemma parseBasicProxyAuth_no_colon:
  "DecodeString (drop (length ''Basic '') authz) = Some cs \<Longrightarrow> CHR '':'' \<notin> set cs \<Longrightarrow>
     parseBasicProxyAuth authz = ([], [], False)"
  by (simp add: parseBasicProxyAuth_def Let_def IndexByte_neg_iff)

lemma DecodeString_short_padding:
  "DecodeString (drop (length ''Basic '') ''Basic QQ='') = None"
  by (simp add: DecodeString_def base64_eval)

lemma DecodeString_user_only:
  "DecodeString (drop (length ''Basic '') ''Basic QWxhZGRpbg=='') = Some ''Aladdin''"
  by (simp add: DecodeString_def base64_eval)

text \<open>
  Claim C2. The header value \<open>Basic QWxhZGRpbjpvcGVuIHNlc2FtZQ==\<close>, whose suffix
  decodes to \<open>Aladdin:open sesame\<close>, parses to the user \<open>Aladdin\<close> and the password
  \<open>open sesame\<close> with \<open>ok\<close> true. A value without the prefix \<open>Basic \<close>, a value
  whose suffix the base64 decoder refuses, and a value whose decoded suffix has no
  colon each parse to the empty user, the empty password and \<open>ok\<close> false.
\<close>

theorem parseBasicProxyAuth_spec:
  "parseBasicProxyAuth ''Basic QWxhZGRpbjpvcGVuIHNlc2FtZQ=='' = (''Aladdin'', ''open sesame'', True)
   \<and> DecodeString ''QWxhZGRpbjpvcGVuIHNlc2FtZQ=='' = Some ''Aladdin:open sesame''
   \<and> (\<forall>authz. \<not> HasPrefix authz ''Basic '' \<longrightarrow> parseBasicProxyAuth authz = ([], [], False))
   \<and> (\<forall>authz. DecodeString (drop (length ''Basic '') authz) = None \<longrightarrow>
          parseBasicProxyAuth authz = ([], [], False))
   \<and> (\<forall>authz cs. DecodeString (drop (length ''Basic '') authz) = Some cs \<and> CHR '':'' \<notin> set cs \<longrightarrow>
          parseBasicProxyAuth authz = ([], [], False))"
proof (intro conjI allI impI)
  show "parseBasicProxyAuth ''Basic QWxhZGRpbjpvcGVuIHNlc2FtZQ=='' = (''Aladdin'', ''open sesame'', True)"
    by (simp add: parseBasicProxyAuth_def HasPrefix_def DecodeString_Aladdin)
  show "DecodeString ''QWxhZGRpbjpvcGVuIHNlc2FtZQ=='' = Some ''Aladdin:open sesame''"
    by (rule DecodeString_Aladdin)
next
  fix authz assume "\<not> HasPrefix authz ''Basic ''"
  then show "parseBasicProxyAuth authz = ([], [], False)"
    by (rule parseBasicProxyAuth_no_prefix)
next
  fix authz assume "DecodeString (drop (length ''Basic '') authz) = None"
  then show "parseBasicProxyAuth authz = ([], [], False)"
    by (rule parseBasicProxyAuth_not_base64)
next
  fix authz cs
  assume "DecodeString (drop (length ''Basic '') authz) = Some cs \<and> CHR '':'' \<notin> set cs"
  then show "parseBasicProxyAuth authz = ([], [], False)"
    by (simp add: parseBasicProxyAuth_no_colon)
qed

theorem parseBasicProxyAuth_spec_witness:
  "\<not> HasPrefix ''Bearer QWxhZGRpbjpvcGVuIHNlc2FtZQ=='' ''Basic ''
   \<and> parseBasicProxyAuth ''Bearer QWxhZGRpbjpvcGVuIHNlc2FtZQ=='' = ([], [], False)
   \<and> DecodeString (drop (length ''Basic '') ''Basic QQ='') = None
   \<and> parseBasicProxyAuth ''Basic QQ='' = ([], [], False)
   \<and> DecodeString (drop (length ''Basic '') ''Basic QWxhZGRpbg=='') = Some ''Aladdin''
   \<and> CHR '':'' \<notin> set ''Aladdin''
   \<and> parseBasicProxyAuth ''Basic QWxhZGRpbg=='' = ([], [], False)"
proof -
  have a: "\<not> HasPrefix ''Bearer QWxhZGRpbjpvcGVuIHNlc2FtZQ=='' ''Basic ''"
    by (simp add: HasPrefix_def)
  have c: "CHR '':'' \<notin> set ''Aladdin''" by simp
  note spec = parseBasicProxyAuth_spec
  from spec a have "parseBasicProxyAuth ''Bearer QWxhZGRpbjpvcGVuIHNlc2FtZQ=='' = ([], [], False)"
    by blast
  moreover from spec DecodeString_short_padding
  have "parseBasicProxyAuth ''Basic QQ='' = ([], [], False)"
    by blast
  moreover from spec DecodeString_user_only c
  have "parseBasicProxyAuth ''Basic QWxhZGRpbg=='' = ([], [], False)"
    by blast
  ultimately show ?thesis
    using a DecodeString_short_padding DecodeString_user_only c by blast
qed

subsection \<open>Interleavings\<close>

lemma set_interleave: "set (interleave s xs ys) = set xs \<union> set ys"
  by (induction s xs ys rule: interleave.induct) auto

lemma append_shuffles: "xs @ ys \<in> shuffles xs ys"
  by (induction xs) (simp_all add: Cons_in_shuffles_leftI)

lemma interleave_shuffles: "interleave s xs ys \<in> shuffles xs ys"
proof (induction s xs ys rule: interleave.induct)
  case (3 x xs y ys)
  have "x # (xs @ y # ys) \<in> shuffles (x # xs) (y # ys)"
    by (rule Cons_in_shuffles_leftI) (rule append_shuffles)
  then show ?case by simp
next
  case (4 s x xs y ys)
  then show ?case by (simp add: Cons_in_shuffles_leftI del: shuffles.simps)
next
  case (5 s x xs y ys)
  then show ?case by (simp add: Cons_in_shuffles_rightI del: shuffles.simps)
qed simp_all

lemma shuffles_interleave: "m \<in> shuffles xs ys \<Longrightarrow> \<exists>s. interleave s xs ys = m"
proof (induction xs ys arbitrary: m rule: shuffles.induct)
  case (1 ys)
  then show ?case by simp
next
  case (2 xs)
  then show ?case by (cases xs) auto
next
  case (3 x xs y ys)
  from "3.prems" consider m' where "m = x # m'" "m' \<in> shuffles xs (y # ys)"
    | m' where "m = y # m'" "m' \<in> shuffles (x # xs) ys"
    by auto
  then show ?case
  proof cases
    case 1
    with "3.IH"(1) obtain s where "interleave s xs (y # ys) = m'" by blast
    then have "interleave (True # s) (x # xs) (y # ys) = m" using 1 by simp
    then show ?thesis by blast
  next
    case 2
    with "3.IH"(2) obtain s where "interleave s (x # xs) ys = m'" by blast
    then have "interleave (False # s) (x # xs) (y # ys) = m" using 2 by simp
    then show ?thesis by blast
  qed
qed

subsection \<open>The forwarding proxy: protocols and credentials\<close>

lemma handleTunneling_no_407: "Error t 407 \<notin> set (fst (handleTunneling p env w r))"
  by (auto simp: handleTunneling_def http_Error_def after_def set_interleave Let_def
      split: option.splits)

lemma parseBasicProxyAuth_empty: "parseBasicProxyAuth [] = ([], [], False)"
  by (simp add: parseBasicProxyAuth_def HasPrefix_def)

text \<open>
  Claim C1, as the code has it. \<open>Proxy\<close> rejects a control message exactly when its
  protocol is not HTTP-CONNECT: it then logs \<open>unsupported protocol\<close> and returns, and
  nothing is written to the sink. HTTP-CONNECT is the only protocol it goes on with;
  HTTP is rejected like every other value.
\<close>

theorem Proxy_supported_protocol:
  "Proxy p env w msg = ([Log ''unsupported protocol''], Returned)
     \<longleftrightarrow> ForwardedProto msg \<noteq> HTTPCONNECT"
  by (cases "ForwardedProto msg")
    (auto simp: Proxy_def after_def ForwardingProxy_ServeHTTP_def Let_def
      split: Writer.splits sum.splits prod.splits)

theorem Proxy_supported_protocol_witness:
  "ForwardedProto connect_message = HTTPCONNECT
   \<and> Proxy proxy_with_credentials reachable (HttpResponseWriter flushing_writer) connect_message
       \<noteq> ([Log ''unsupported protocol''], Returned)"
  using Proxy_supported_protocol
    [of proxy_with_credentials reachable "HttpResponseWriter flushing_writer" connect_message]
  by (simp add: connect_message_def)

text \<open>
  The claim as written counts HTTP among the supported protocols; a control message
  whose protocol is HTTP is rejected.
\<close>

theorem Proxy_rejects_HTTP:
  "ForwardedProto http_message = HTTP
   \<and> Proxy proxy_with_credentials reachable (HttpResponseWriter flushing_writer) http_message
       = ([Log ''unsupported protocol''], Returned)"
  by (simp add: Proxy_def http_message_def)

text \<open>
  Claim C3. With both \<open>AuthUser\<close> and \<open>AuthPass\<close> set, a request whose
  \<open>Proxy-Authorization\<close> header is absent, does not parse, or carries another user or
  password is answered with status 407 on the response writer, and \<open>ServeHTTP\<close> returns
  there: no destination is dialled, nothing is handed to the reverse proxy and nothing
  is relayed, whatever the response writer.
\<close>

theorem ServeHTTP_proxy_auth_required:
  assumes "AuthUser p \<noteq> []" and "AuthPass p \<noteq> []"
    and "Header r ''Proxy-Authorization'' = None
       \<or> \<not> snd (snd (parseBasicProxyAuth (Header_Get (Header r) ''Proxy-Authorization'')))
       \<or> fst (parseBasicProxyAuth (Header_Get (Header r) ''Proxy-Authorization'')) \<noteq> AuthUser p
       \<or> fst (snd (parseBasicProxyAuth (Header_Get (Header r) ''Proxy-Authorization'')))
            \<noteq> AuthPass p"
  shows "ForwardingProxy_ServeHTTP p env (Some w) r =
           ([Log ''Incoming request host'', Error ''Proxy Authentication Required'' 407],
            Returned)
       \<and> (\<forall>w' host. DialTimeout host \<notin> set (fst (ForwardingProxy_ServeHTTP p env w' r)))
       \<and> (\<forall>w' r'. ReverseProxy r' \<notin> set (fst (ForwardingProxy_ServeHTTP p env w' r)))
       \<and> (\<forall>w' d x. Relay d x \<notin> set (fst (ForwardingProxy_ServeHTTP p env w' r)))"
proof -
  obtain user pass ok where
    parsed: "parseBasicProxyAuth (Header_Get (Header r) ''Proxy-Authorization'') = (user, pass, ok)"
    by (cases "parseBasicProxyAuth (Header_Get (Header r) ''Proxy-Authorization'')") auto
  have absent: "Header r ''Proxy-Authorization'' = None \<Longrightarrow> \<not> ok"
    using parsed by (simp add: Header_Get_def parseBasicProxyAuth_empty)
  from assms(3) parsed absent have bad: "\<not> ok \<or> user \<noteq> AuthUser p \<or> pass \<noteq> AuthPass p"
    by auto
  have "ForwardingProxy_ServeHTTP p env w' r =
          after [Log ''Incoming request host''] (http_Error w' (StatusText 407) 407)" for w'
    using assms(1,2) parsed bad by (auto simp: ForwardingProxy_ServeHTTP_def Let_def)
  then show ?thesis
    by (auto simp: after_def http_Error_def StatusText_def split: option.splits)
qed

theorem ServeHTTP_proxy_auth_required_witness:
  "AuthUser proxy_with_credentials \<noteq> []
   \<and> AuthPass proxy_with_credentials \<noteq> []
   \<and> Header connect_request ''Proxy-Authorization'' = None
   \<and> ForwardingProxy_ServeHTTP proxy_with_credentials reachable (Some flushing_writer)
        connect_request =
       ([Log ''Incoming request host'', Error ''Proxy Authentication Required'' 407], Returned)"
  using ServeHTTP_proxy_auth_required
    [of proxy_with_credentials connect_request reachable flushing_writer]
  by (simp add: proxy_with_credentials_def connect_request_def)

text \<open>
  Claim C9. When \<open>AuthUser\<close> or \<open>AuthPass\<close> is empty, \<open>ServeHTTP\<close> does not look at
  the \<open>Proxy-Authorization\<close> header: after its log line it is the dispatch alone (the
  reverse proxy for the scheme \<open>http\<close>, \<open>handleTunneling\<close> otherwise), and no event
  of the call is a 407 answer.
\<close>

theorem ServeHTTP_without_credentials:
  assumes "AuthUser p = [] \<or> AuthPass p = []"
  shows "ForwardingProxy_ServeHTTP p env w r =
           after [Log ''Incoming request host'']
             (if URL_Scheme r = ''http'' then ([ReverseProxy r], Returned)
              else handleTunneling p env w r)
       \<and> (\<forall>t. Error t 407 \<notin> set (fst (ForwardingProxy_ServeHTTP p env w r)))"
proof -
  have eq: "ForwardingProxy_ServeHTTP p env w r =
           after [Log ''Incoming request host'']
             (if URL_Scheme r = ''http'' then ([ReverseProxy r], Returned)
              else handleTunneling p env w r)"
    using assms by (auto simp: ForwardingProxy_ServeHTTP_def Let_def)
  show ?thesis
    unfolding eq by (simp add: after_def handleTunneling_no_407)
qed

theorem ServeHTTP_without_credentials_witness:
  "AuthUser proxy_without_credentials = []
   \<and> ForwardingProxy_ServeHTTP proxy_without_credentials reachable (Some flushing_writer)
        connect_request =
       after [Log ''Incoming request host'']
         (handleTunneling proxy_without_credentials reachable (Some flushing_writer)
            connect_request)
   \<and> Error ''Proxy Authentication Required'' 407
       \<notin> set (fst (ForwardingProxy_ServeHTTP proxy_without_credentials reachable
                     (Some flushing_writer) connect_request))"
proof -
  have user: "AuthUser proxy_without_credentials = []"
    by (simp add: proxy_without_credentials_def)
  have scheme: "URL_Scheme connect_request \<noteq> ''http''"
    by (simp add: connect_request_def)
  from user have "AuthUser proxy_without_credentials = [] \<or> AuthPass proxy_without_credentials = []"
    by (rule disjI1)
  note served = ServeHTTP_without_credentials
    [OF this, where env = reachable and w = "Some flushing_writer" and r = connect_request]
  from served scheme
  have dispatch:
    "ForwardingProxy_ServeHTTP proxy_without_credentials reachable (Some flushing_writer)
        connect_request =
       after [Log ''Incoming request host'']
         (handleTunneling proxy_without_credentials reachable (Some flushing_writer)
            connect_request)"
    by simp
  from served
  have no_407:
    "Error ''Proxy Authentication Required'' 407
       \<notin> set (fst (ForwardingProxy_ServeHTTP proxy_without_credentials reachable
                     (Some flushing_writer) connect_request))"
    by blast
  from user dispatch no_407 show ?thesis by (intro conjI)
qed

subsection \<open>The forwarding proxy: the order of a tunnel\<close>

lemma handleTunneling_accepted:
  assumes "Method r = ''CONNECT''" and "Dial env (Host r) = None" and "Flusher w"
  shows "handleTunneling p env (Some w) r =
           ([DialTimeout (Host r), SetReadDeadline, SetWriteDeadline,
             Println ''Connected to host'', WriteResponse 200, Flush,
             Println ''Flushed to host'']
              @ interleave (schedule env) (map (Relay Up) (transferUp env))
                  (map (Relay Down) (transferDown env))
              @ [Println ''Done for'', DestClose, SourceClose],
            Returned)"
  using assms by (simp add: handleTunneling_def Let_def)

text \<open>
  Claim C6. For a \<open>CONNECT\<close> request whose destination answers the dial, on a
  response writer that can flush: the trace of \<open>handleTunneling\<close> is the dial and the
  two deadlines, then the response with status 200 and its flush, then the steps of
  the two \<open>transfer\<close> calls (source stream to destination, and destination to sink),
  then the close of the destination connection followed by the close of the source
  stream. The relayed part is an interleaving of the two directions, each in its own
  order and complete, so every relayed step comes after the flush and before both
  closes; and every interleaving of the two is the trace under some schedule, which is
  what running the two directions concurrently means. On a writer that cannot flush,
  and on the nil writer, the call panics before any step is relayed and closes nothing.
\<close>

theorem handleTunneling_order:
  assumes "Method r = ''CONNECT''" and "Dial env (Host r) = None"
  shows "(Flusher w \<longrightarrow>
            (\<exists>relayed.
                relayed \<in> shuffles (map (Relay Up) (transferUp env))
                                   (map (Relay Down) (transferDown env))
              \<and> handleTunneling p env (Some w) r =
                  ([DialTimeout (Host r), SetReadDeadline, SetWriteDeadline,
                    Println ''Connected to host'', WriteResponse 200, Flush,
                    Println ''Flushed to host'']
                     @ relayed @ [Println ''Done for'', DestClose, SourceClose],
                   Returned))
          \<and> (\<forall>relayed \<in> shuffles (map (Relay Up) (transferUp env))
                                   (map (Relay Down) (transferDown env)).
                \<exists>s. handleTunneling p (env\<lparr>schedule := s\<rparr>) (Some w) r =
                  ([DialTimeout (Host r), SetReadDeadline, SetWriteDeadline,
                    Println ''Connected to host'', WriteResponse 200, Flush,
                    Println ''Flushed to host'']
                     @ relayed @ [Println ''Done for'', DestClose, SourceClose],
                   Returned)))
       \<and> (\<not> Flusher w \<longrightarrow>
            handleTunneling p env (Some w) r =
              ([DialTimeout (Host r), SetReadDeadline, SetWriteDeadline,
                Println ''Connected to host'', WriteResponse 200],
               Panicked))
       \<and> handleTunneling p env None r =
           ([DialTimeout (Host r), SetReadDeadline, SetWriteDeadline,
             Println ''Connected to host''],
            Panicked)"
proof (intro conjI impI ballI)
  assume "Flusher w"
  from handleTunneling_accepted [OF assms this] interleave_shuffles
  show "\<exists>relayed.
          relayed \<in> shuffles (map (Relay Up) (transferUp env))
                             (map (Relay Down) (transferDown env))
        \<and> handleTunneling p env (Some w) r =
            ([DialTimeout (Host r), SetReadDeadline, SetWriteDeadline,
              Println ''Connected to host'', WriteResponse 200, Flush,
              Println ''Flushed to host'']
               @ relayed @ [Println ''Done for'', DestClose, SourceClose],
             Returned)"
    by blast
next
  fix relayed
  assume flusher: "Flusher w"
    and "relayed \<in> shuffles (map (Relay Up) (transferUp env))
                             (map (Relay Down) (transferDown env))"
  then obtain s where
    s: "interleave s (map (Relay Up) (transferUp env)) (map (Relay Down) (transferDown env))
          = relayed"
    using shuffles_interleave by blast
  have "handleTunneling p (env\<lparr>schedule := s\<rparr>) (Some w) r =
          ([DialTimeout (Host r), SetReadDeadline, SetWriteDeadline,
            Println ''Connected to host'', WriteResponse 200, Flush,
            Println ''Flushed to host'']
             @ relayed @ [Println ''Done for'', DestClose, SourceClose],
           Returned)"
    using handleTunneling_accepted [of r "env\<lparr>schedule := s\<rparr>" w p] assms flusher s by simp
  then show "\<exists>s. handleTunneling p (env\<lparr>schedule := s\<rparr>) (Some w) r =
          ([DialTimeout (Host r), SetReadDeadline, SetWriteDeadline,
            Println ''Connected to host'', WriteResponse 200, Flush,
            Println ''Flushed to host'']
             @ relayed @ [Println ''Done for'', DestClose, SourceClose],
           Returned)"
    by blast
next
  assume "\<not> Flusher w"
  with assms show "handleTunneling p env (Some w) r =
      ([DialTimeout (Host r), SetReadDeadline, SetWriteDeadline,
        Println ''Connected to host'', WriteResponse 200],
       Panicked)"
    by (simp add: handleTunneling_def Let_def)
next
  from assms show "handleTunneling p env None r =
      ([DialTimeout (Host r), SetReadDeadline, SetWriteDeadline,
        Println ''Connected to host''],
       Panicked)"
    by (simp add: handleTunneling_def Let_def)
qed

theorem handleTunneling_order_witness:
  "Method connect_request = ''CONNECT''
   \<and> Dial reachable (Host connect_request) = None
   \<and> Flusher flushing_writer
   \<and> (\<exists>relayed.
         relayed \<in> shuffles (map (Relay Up) (transferUp reachable))
                            (map (Relay Down) (transferDown reachable))
       \<and> handleTunneling proxy_with_credentials reachable (Some flushing_writer)
           connect_request =
           ([DialTimeout (Host connect_request), SetReadDeadline, SetWriteDeadline,
             Println ''Connected to host'', WriteResponse 200, Flush,
             Println ''Flushed to host'']
              @ relayed @ [Println ''Done for'', DestClose, SourceClose],
            Returned))
   \<and> handleTunneling proxy_with_credentials reachable (Some flushing_writer) connect_request =
       ([DialTimeout ''dest:443'', SetReadDeadline, SetWriteDeadline,
         Println ''Connected to host'', WriteResponse 200, Flush, Println ''Flushed to host'',
         Relay Down ''welcome'', Relay Up ''hello'', Relay Up ''bye'',
         Println ''Done for'', DestClose, SourceClose],
        Returned)"
proof -
  have m: "Method connect_request = ''CONNECT''"
    by (simp add: connect_request_def)
  have d: "Dial reachable (Host connect_request) = None"
    by (simp add: reachable_def)
  have f: "Flusher flushing_writer"
    by (simp add: flushing_writer_def)
  note order = handleTunneling_order
    [OF m d, where w = flushing_writer and p = proxy_with_credentials]
  from order f
  have "\<exists>relayed.
         relayed \<in> shuffles (map (Relay Up) (transferUp reachable))
                            (map (Relay Down) (transferDown reachable))
       \<and> handleTunneling proxy_with_credentials reachable (Some flushing_writer)
           connect_request =
           ([DialTimeout (Host connect_request), SetReadDeadline, SetWriteDeadline,
             Println ''Connected to host'', WriteResponse 200, Flush,
             Println ''Flushed to host'']
              @ relayed @ [Println ''Done for'', DestClose, SourceClose],
            Returned)"
    by blast
  moreover
  have "handleTunneling proxy_with_credentials reachable (Some flushing_writer) connect_request =
       ([DialTimeout ''dest:443'', SetReadDeadline, SetWriteDeadline,
         Println ''Connected to host'', WriteResponse 200, Flush, Println ''Flushed to host'',
         Relay Down ''welcome'', Relay Up ''hello'', Relay Up ''bye'',
         Println ''Done for'', DestClose, SourceClose],
        Returned)"
    by (simp add: handleTunneling_def reachable_def connect_request_def flushing_writer_def)
  ultimately show ?thesis using m d f by (intro conjI)
qed

subsection \<open>The relay primitive of the server\<close>

text \<open>
  Claim C5. When the copy of \<open>transfer\<close> is over, with or without an error, the
  closing calls are these and no others, in this order: \<open>CloseWrite\<close> on \<open>dst\<close> if
  \<open>dst\<close> is a \<open>closeWriter\<close> (and nothing on \<open>dst\<close> if it is not), then \<open>CloseRead\<close>
  on \<open>src\<close> if \<open>src\<close> is a \<open>closeReader\<close>, and \<open>Close\<close> on \<open>src\<close> if it is not. So
  \<open>dst\<close> is never closed in full. A copy error adds one log line in front and changes
  nothing else; \<open>transfer\<close> has no result through which it could reach the caller.
\<close>

theorem transfer_closes:
  "filter closing (transfer side dst src (n, err)) =
     (if closeWriter dst then [CloseWrite (name dst)] else [])
     @ (if closeReader src then [CloseRead (name src)] else [Close (name src)])
   \<and> (name dst \<noteq> name src \<longrightarrow> Close (name dst) \<notin> set (transfer side dst src (n, err)))
   \<and> (closeReader src \<longrightarrow> Close (name src) \<notin> set (transfer side dst src (n, err)))
   \<and> transfer side dst src (n, Some e) =
       Logged ''%s: copy error: %s'' # transfer side dst src (n, None)
   \<and> filter closing (transfer side dst src (n, Some e)) =
       filter closing (transfer side dst src (n, None))"
  by (auto simp: transfer_def)

theorem transfer_closes_witness:
  "name tcp_conn \<noteq> name public_sink
   \<and> Close (name tcp_conn)
       \<notin> set (transfer ''local to remote'' tcp_conn public_sink (3, Some ''broken pipe''))
   \<and> filter closing (transfer ''local to remote'' tcp_conn public_sink (3, Some ''broken pipe''))
       = [CloseWrite ''c'', Close ''w'']
   \<and> closeReader tcp_conn
   \<and> Close (name tcp_conn)
       \<notin> set (transfer ''remote to local'' public_sink tcp_conn (0, None))
   \<and> filter closing (transfer ''remote to local'' public_sink tcp_conn (0, None))
       = [CloseRead ''c'']"
proof -
  have names: "name tcp_conn \<noteq> name public_sink"
    by (simp add: tcp_conn_def public_sink_def)
  have reader: "closeReader tcp_conn"
    by (simp add: tcp_conn_def)
  have fields: "closeWriter tcp_conn" "\<not> closeWriter public_sink" "\<not> closeReader public_sink"
    "name tcp_conn = ''c''" "name public_sink = ''w''"
    by (simp_all add: tcp_conn_def public_sink_def)
  note up = transfer_closes
    [of "''local to remote''" tcp_conn public_sink 3 "Some ''broken pipe''"]
  note down = transfer_closes [of "''remote to local''" public_sink tcp_conn 0 None]
  from up names
  have "Close (name tcp_conn)
       \<notin> set (transfer ''local to remote'' tcp_conn public_sink (3, Some ''broken pipe''))"
    by blast
  moreover from up [THEN conjunct1] fields
  have "filter closing (transfer ''local to remote'' tcp_conn public_sink (3, Some ''broken pipe''))
       = [CloseWrite ''c'', Close ''w'']"
    by simp
  moreover from down reader
  have "Close (name tcp_conn)
       \<notin> set (transfer ''remote to local'' public_sink tcp_conn (0, None))"
    by blast
  moreover from down [THEN conjunct1] fields reader
  have "filter closing (transfer ''remote to local'' public_sink tcp_conn (0, None))
       = [CloseRead ''c'']"
    by simp
  ultimately show ?thesis using names reader by (intro conjI)
qed

subsection \<open>The server: accept loops\<close>

lemma listenControl_returns:
  "snd (listenControl as) = LoopReturned \<longleftrightarrow>
     (\<exists>err. AcceptError err \<in> set as \<and> Contains err ''use of closed network connection'')"
  by (induction as rule: listenControl.induct) (auto split: prod.splits)

lemma listen_returns:
  "snd (listen network client as) = LoopReturned \<longleftrightarrow>
     (\<exists>err. AcceptError err \<in> set as \<and> Contains err ''use of closed network connection'')"
  by (induction network client as rule: listen.induct) (auto split: prod.splits simp: Let_def)

text \<open>
  Claim C8. Both accept loops, against any sequence of accept results: the loop has
  returned exactly when one of the results was an error whose message contains
  \<open>use of closed network connection\<close>; such an error is logged and ends the loop
  there; any other accept error is logged and the loop goes on with the next result.
\<close>

theorem accept_loops:
  "(snd (listenControl as) = LoopReturned \<longleftrightarrow>
      (\<exists>err. AcceptError err \<in> set as \<and> Contains err ''use of closed network connection''))
   \<and> (snd (listen network client as) = LoopReturned \<longleftrightarrow>
      (\<exists>err. AcceptError err \<in> set as \<and> Contains err ''use of closed network connection''))
   \<and> (\<not> Contains err ''use of closed network connection'' \<longrightarrow>
        listenControl (AcceptError err # as) =
          (Logged ''Accept %s control connection to %q failed: %s'' # fst (listenControl as),
           snd (listenControl as))
      \<and> listen network client (AcceptError err # as) =
          (Logged ''Accept %s connection to %q failed: %s'' # fst (listen network client as),
           snd (listen network client as)))
   \<and> (Contains err ''use of closed network connection'' \<longrightarrow>
        listenControl (AcceptError err # as) =
          ([Logged ''Accept %s control connection to %q failed: %s''], LoopReturned)
      \<and> listen network client (AcceptError err # as) =
          ([Logged ''Accept %s connection to %q failed: %s''], LoopReturned))"
  by (auto simp: listenControl_returns listen_returns split: prod.splits)

lemma timeout_is_transient:
  "\<not> Contains ''i/o timeout'' ''use of closed network connection''"
  by (simp add: HasPrefix_def)

lemma closed_is_final:
  "Contains ''accept tcp: use of closed network connection'' ''use of closed network connection''"
  by (simp add: HasPrefix_def)

theorem accept_loops_witness:
  "\<not> Contains ''i/o timeout'' ''use of closed network connection''
   \<and> Contains ''accept tcp: use of closed network connection'' ''use of closed network connection''
   \<and> listenControl [AcceptError ''accept tcp: use of closed network connection'',
                     AcceptConn control_conn] =
       ([Logged ''Accept %s control connection to %q failed: %s''], LoopReturned)
   \<and> listenControl [AcceptError ''i/o timeout''] =
       ([Logged ''Accept %s control connection to %q failed: %s''], Accepting)
   \<and> listen ''tcp'' tenant [AcceptError ''i/o timeout''] =
       ([Logged ''Accept %s connection to %q failed: %s''], Accepting)"
proof -
  from accept_loops
    [of "[AcceptConn control_conn]" "''tcp''" tenant
        "''accept tcp: use of closed network connection''"]
    closed_is_final
  have "listenControl [AcceptError ''accept tcp: use of closed network connection'',
                     AcceptConn control_conn] =
       ([Logged ''Accept %s control connection to %q failed: %s''], LoopReturned)"
    by blast
  moreover
  from accept_loops [of "[]" "''tcp''" tenant "''i/o timeout''"] timeout_is_transient
  have "listenControl [AcceptError ''i/o timeout''] =
          (Logged ''Accept %s control connection to %q failed: %s'' # fst (listenControl []),
           snd (listenControl []))"
    and "listen ''tcp'' tenant [AcceptError ''i/o timeout''] =
          (Logged ''Accept %s connection to %q failed: %s'' # fst (listen ''tcp'' tenant []),
           snd (listen ''tcp'' tenant []))"
    by blast+
  then have "listenControl [AcceptError ''i/o timeout''] =
       ([Logged ''Accept %s control connection to %q failed: %s''], Accepting)"
    and "listen ''tcp'' tenant [AcceptError ''i/o timeout''] =
       ([Logged ''Accept %s connection to %q failed: %s''], Accepting)"
    by simp_all
  ultimately show ?thesis using timeout_is_transient closed_is_final by (intro conjI)
qed

subsection \<open>The server: the HTTP entry point\<close>

lemma proxyHTTP_starts:
  "\<exists>rest. fst (proxyHTTP env host w r msg) = LoggedMsg ''Start %s'' msg # rest"
  by (auto simp: proxyHTTP_def Let_def split: option.splits sum.splits)

lemma proxyHTTP_error_before_header:
  "proxyHTTP env host w r msg = (evs, Some err) \<Longrightarrow> WriteHeader c \<notin> set evs"
  by (auto simp: proxyHTTP_def Let_def split: option.splits sum.splits)

lemma proxyHTTP_no_HttpError:
  "HttpError e c \<notin> set (fst (proxyHTTP env host w r msg))"
  by (auto simp: proxyHTTP_def Let_def transfer_def split: option.splits sum.splits prod.splits)

lemma proxyHTTP_RoundTrip:
  "RoundTrip m u msg' \<in> set (fst (proxyHTTP env host w r msg)) \<Longrightarrow>
     m = ''PUT'' \<and> u = url host \<and> msg' = msg"
  by (auto simp: proxyHTTP_def Let_def transfer_def
      split: option.splits sum.splits prod.splits if_splits)

text \<open>
  Claim C7. The control message that \<open>ServeHTTP\<close> of the server builds has the action
  \<open>RequestClientSession\<close>, the protocol HTTP, \<open>ForwardedFor\<close> the request's remote
  address, \<open>ForwardedBy\<close> the request's host and \<open>URLPath\<close> the path of the request's
  URL: it is the message of the first log line and of every round trip of the call.
  When \<open>proxyHTTP\<close> returns an error, that error is logged and then written to the
  caller with status 502, and no status had been written before; when it returns no
  error, nothing is written through \<open>http.Error\<close>.
\<close>

theorem Server_ServeHTTP_message:
  "(\<exists>rest. Server_ServeHTTP env w r =
      LoggedMsg ''Start %s''
        \<lparr>Action = RequestClientSession, Protocol = HTTP, ForwardedFor = RemoteAddr r,
         ForwardedBy = Host r, URLPath = URL_Path r\<rparr> # rest)
   \<and> (\<forall>m u msg. RoundTrip m u msg \<in> set (Server_ServeHTTP env w r) \<longrightarrow>
         msg = \<lparr>Action = RequestClientSession, Protocol = HTTP, ForwardedFor = RemoteAddr r,
                ForwardedBy = Host r, URLPath = URL_Path r\<rparr>)
   \<and> (\<forall>evs err.
         proxyHTTP env (trimPort (Host r)) w r
           \<lparr>Action = RequestClientSession, Protocol = HTTP, ForwardedFor = RemoteAddr r,
            ForwardedBy = Host r, URLPath = URL_Path r\<rparr> = (evs, Some err) \<longrightarrow>
         Server_ServeHTTP env w r =
           evs @ [LoggedMsg ''Error %s: %s''
                    \<lparr>Action = RequestClientSession, Protocol = HTTP, ForwardedFor = RemoteAddr r,
                     ForwardedBy = Host r, URLPath = URL_Path r\<rparr>,
                  HttpError err 502]
         \<and> (\<forall>c. WriteHeader c \<notin> set evs))
   \<and> (\<forall>evs e c.
         proxyHTTP env (trimPort (Host r)) w r
           \<lparr>Action = RequestClientSession, Protocol = HTTP, ForwardedFor = RemoteAddr r,
            ForwardedBy = Host r, URLPath = URL_Path r\<rparr> = (evs, None) \<longrightarrow>
         HttpError e c \<notin> set (Server_ServeHTTP env w r))"
proof -
  let ?msg = "\<lparr>Action = RequestClientSession, Protocol = HTTP, ForwardedFor = RemoteAddr r,
         ForwardedBy = Host r, URLPath = URL_Path r\<rparr>"
  let ?res = "proxyHTTP env (trimPort (Host r)) w r ?msg"
  obtain evs err where res: "?res = (evs, err)" by (cases ?res) auto
  have serve: "Server_ServeHTTP env w r =
     (case err of None \<Rightarrow> evs
      | Some e \<Rightarrow> evs @ [LoggedMsg ''Error %s: %s'' ?msg, HttpError e 502])"
    using res by (simp add: Server_ServeHTTP_def Let_def)
  obtain rest where rest: "evs = LoggedMsg ''Start %s'' ?msg # rest"
    using proxyHTTP_starts [of env "trimPort (Host r)" w r ?msg] res by auto
  have round: "RoundTrip m u msg \<in> set evs \<Longrightarrow> msg = ?msg" for m u msg
    using proxyHTTP_RoundTrip [of m u msg env "trimPort (Host r)" w r ?msg] res by simp
  have noerr: "HttpError e c \<notin> set evs" for e c
    using proxyHTTP_no_HttpError [of e c env "trimPort (Host r)" w r ?msg] res by simp
  have nohdr: "err = Some e \<Longrightarrow> WriteHeader c \<notin> set evs" for e c
    using proxyHTTP_error_before_header [of env "trimPort (Host r)" w r ?msg evs e c] res
    by simp
  show ?thesis
    unfolding serve res using rest round noerr nohdr
    by (cases err) auto
qed

lemmas split_eval = SplitHostPort_def LastIndexByte_def Let_def

lemma trimPort_public_request: "trimPort (Host public_request) = ''a.example''"
  by (simp add: public_request_def trimPort_def split_eval)

lemma proxyHTTP_dead_tunnel:
  "proxyHTTP dead_tunnel (trimPort (Host public_request)) public_sink public_request
     \<lparr>Action = RequestClientSession, Protocol = HTTP,
      ForwardedFor = RemoteAddr public_request, ForwardedBy = Host public_request,
      URLPath = URL_Path public_request\<rparr> =
   ([LoggedMsg ''Start %s''
       \<lparr>Action = RequestClientSession, Protocol = HTTP,
        ForwardedFor = RemoteAddr public_request, ForwardedBy = Host public_request,
        URLPath = URL_Path public_request\<rparr>,
     Go_Write,
     RoundTrip ''PUT'' ''https://a.example''
       \<lparr>Action = RequestClientSession, Protocol = HTTP,
        ForwardedFor = RemoteAddr public_request, ForwardedBy = Host public_request,
        URLPath = URL_Path public_request\<rparr>,
     Close ''pw'', Close ''pr''],
    Some ''proxy request error: no connection'')"
  unfolding trimPort_public_request
  by (simp add: proxyHTTP_def dead_tunnel_def url_def)

theorem Server_ServeHTTP_message_witness:
  "proxyHTTP dead_tunnel (trimPort (Host public_request)) public_sink public_request
     \<lparr>Action = RequestClientSession, Protocol = HTTP,
      ForwardedFor = RemoteAddr public_request, ForwardedBy = Host public_request,
      URLPath = URL_Path public_request\<rparr> =
   ([LoggedMsg ''Start %s''
       \<lparr>Action = RequestClientSession, Protocol = HTTP,
        ForwardedFor = RemoteAddr public_request, ForwardedBy = Host public_request,
        URLPath = URL_Path public_request\<rparr>,
     Go_Write,
     RoundTrip ''PUT'' ''https://a.example''
       \<lparr>Action = RequestClientSession, Protocol = HTTP,
        ForwardedFor = RemoteAddr public_request, ForwardedBy = Host public_request,
        URLPath = URL_Path public_request\<rparr>,
     Close ''pw'', Close ''pr''],
    Some ''proxy request error: no connection'')
   \<and> Server_ServeHTTP dead_tunnel public_sink public_request =
       [LoggedMsg ''Start %s''
          \<lparr>Action = RequestClientSession, Protocol = HTTP,
           ForwardedFor = RemoteAddr public_request, ForwardedBy = Host public_request,
           URLPath = URL_Path public_request\<rparr>,
        Go_Write,
        RoundTrip ''PUT'' ''https://a.example''
          \<lparr>Action = RequestClientSession, Protocol = HTTP,
           ForwardedFor = RemoteAddr public_request, ForwardedBy = Host public_request,
           URLPath = URL_Path public_request\<rparr>,
        Close ''pw'', Close ''pr'']
       @ [LoggedMsg ''Error %s: %s''
            \<lparr>Action = RequestClientSession, Protocol = HTTP,
             ForwardedFor = RemoteAddr public_request, ForwardedBy = Host public_request,
             URLPath = URL_Path public_request\<rparr>,
          HttpError ''proxy request error: no connection'' 502]"
proof -
  note served = Server_ServeHTTP_message [of dead_tunnel public_sink public_request]
  from served proxyHTTP_dead_tunnel
  have "Server_ServeHTTP dead_tunnel public_sink public_request =
       [LoggedMsg ''Start %s''
          \<lparr>Action = RequestClientSession, Protocol = HTTP,
           ForwardedFor = RemoteAddr public_request, ForwardedBy = Host public_request,
           URLPath = URL_Path public_request\<rparr>,
        Go_Write,
        RoundTrip ''PUT'' ''https://a.example''
          \<lparr>Action = RequestClientSession, Protocol = HTTP,
           ForwardedFor = RemoteAddr public_request, ForwardedBy = Host public_request,
           URLPath = URL_Path public_request\<rparr>,
        Close ''pw'', Close ''pr'']
       @ [LoggedMsg ''Error %s: %s''
            \<lparr>Action = RequestClientSession, Protocol = HTTP,
             ForwardedFor = RemoteAddr public_request, ForwardedBy = Host public_request,
             URLPath = URL_Path public_request\<rparr>,
          HttpError ''proxy request error: no connection'' 502]"
    by blast
  with proxyHTTP_dead_tunnel show ?thesis by (intro conjI)
qed

subsection \<open>The server: rejected control connections\<close>

text \<open>
  Claim C4. On a TLS connection \<open>handleClient\<close> rejects exactly for one of the six
  reasons: no certificate identity, an identity no allowed client has, a client host
  that makes no request, a host the pool refuses, an error of the probe, a probe
  status other than 200. Whenever it rejects, the connection is closed, and if a
  client had been matched the pool afterwards holds no entry for that client's host.
\<close>

theorem handleClient_rejected:
  "(isTLS c \<longrightarrow>
      (fst (handleClient cs env pool c) = Rejected \<longleftrightarrow>
         (\<exists>err. peerID env = Inl err)
       \<or> (\<exists>cert. peerID env = Inr cert \<and> checkID cs cert = None)
       \<or> (\<exists>cert client. peerID env = Inr cert \<and> checkID cs cert = Some client
            \<and> (NewRequestFails env (url (ClientHost client))
               \<or> malformedHost env (ClientHost client)
               \<or> (\<exists>err. Do env = Inl err)
               \<or> (\<exists>code. Do env = Inr code \<and> code \<noteq> 200)))))
   \<and> (fst (handleClient cs env pool c) = Rejected \<longrightarrow>
        Close (conn c) \<in> set (snd (snd (handleClient cs env pool c)))
      \<and> (\<forall>cert client. peerID env = Inr cert \<and> checkID cs cert = Some client \<longrightarrow>
            fst (snd (handleClient cs env pool c)) (ClientHost client) = None))"
  by (auto simp: handleClient_def reject_def markHostDead_def addHostConn_def Let_def
      split: sum.splits option.splits if_splits)

lemma handleClient_probe_503:
  "handleClient [tenant] probe_503 Map.empty control_conn =
     (Rejected, (Map.empty(''a.example'' \<mapsto> ''c1''))(''a.example'' := None),
      [Logged ''Handshake failed'', Close ''c1''])"
  by (simp add: handleClient_def reject_def markHostDead_def addHostConn_def checkID_def
      tenant_def probe_503_def control_conn_def)

theorem handleClient_rejected_witness:
  "isTLS control_conn
   \<and> peerID probe_503 = Inr ''cert-a''
   \<and> checkID [tenant] ''cert-a'' = Some tenant
   \<and> Do probe_503 = Inr 503
   \<and> fst (handleClient [tenant] probe_503 Map.empty control_conn) = Rejected
   \<and> Close (conn control_conn)
       \<in> set (snd (snd (handleClient [tenant] probe_503 Map.empty control_conn)))
   \<and> fst (snd (handleClient [tenant] probe_503 Map.empty control_conn)) (ClientHost tenant)
       = None"
proof -
  have tls: "isTLS control_conn"
    by (simp add: control_conn_def)
  have peer: "peerID probe_503 = Inr ''cert-a''" and probe: "Do probe_503 = Inr 503"
    by (simp_all add: probe_503_def)
  have known: "checkID [tenant] ''cert-a'' = Some tenant"
    by (simp add: checkID_def tenant_def)
  have rejected: "fst (handleClient [tenant] probe_503 Map.empty control_conn) = Rejected"
    by (simp add: handleClient_probe_503)
  note closed = handleClient_rejected [of control_conn "[tenant]" probe_503 Map.empty]
  from closed rejected
  have "Close (conn control_conn)
       \<in> set (snd (snd (handleClient [tenant] probe_503 Map.empty control_conn)))"
    by blast
  moreover from closed rejected peer known
  have "fst (snd (handleClient [tenant] probe_503 Map.empty control_conn)) (ClientHost tenant)
       = None"
    by blast
  ultimately show ?thesis using tls peer known probe rejected by (intro conjI)
qed

subsection \<open>The routing key\<close>

lemma IndexByte_ge0_iff: "0 \<le> IndexByte s c \<longleftrightarrow> c \<in> set s"
  using IndexByte_neg_iff [of s c] by auto

lemma IndexByte_first: "c \<notin> set h \<Longrightarrow> IndexByte (h @ c # t) c = int (length h)"
  by (induction h) (auto simp: Let_def)

lemma LastIndexByte_last: "c \<notin> set t \<Longrightarrow> LastIndexByte (h @ c # t) c = int (length h)"
  using IndexByte_first [of c "rev t" "rev h"]
  by (simp add: LastIndexByte_def Let_def)

lemma LastIndexByte_absent: "c \<notin> set s \<Longrightarrow> LastIndexByte s c = - 1"
  using IndexByte_neg_iff [of "rev s" c] by (simp add: LastIndexByte_def Let_def)

lemma SplitHostPort_no_colon: "CHR '':'' \<notin> set s \<Longrightarrow> SplitHostPort s = Inl missingPort"
  by (simp add: SplitHostPort_def LastIndexByte_absent)

lemma SplitHostPort_plain:
  assumes "CHR '':'' \<notin> set h" "CHR ''['' \<notin> set h" "CHR '']'' \<notin> set h"
    and "CHR '':'' \<notin> set p" "CHR ''['' \<notin> set p" "CHR '']'' \<notin> set p"
  shows "SplitHostPort (h @ '':'' @ p) = Inr (h, p)"
proof -
  have i: "LastIndexByte (h @ '':'' @ p) (CHR '':'') = int (length h)"
    using LastIndexByte_last [of "CHR '':''" p h] assms(4) by simp
  have hd: "hd (h @ '':'' @ p) \<noteq> CHR ''[''"
    using assms(2) by (cases h) auto
  have nob: "\<not> 0 \<le> IndexByte (h @ '':'' @ p) (CHR ''['')"
    "\<not> 0 \<le> IndexByte (h @ '':'' @ p) (CHR '']'')"
    using assms by (auto simp: IndexByte_ge0_iff)
  have noc: "\<not> 0 \<le> IndexByte h (CHR '':'')"
    using assms by (auto simp: IndexByte_ge0_iff)
  show ?thesis
    unfolding SplitHostPort_def Let_def i using hd nob noc
    by (simp add: nat_add_distrib)
qed

lemma SplitHostPort_bracketed:
  assumes "CHR ''['' \<notin> set h" "CHR '']'' \<notin> set h"
    and "CHR '':'' \<notin> set p" "CHR ''['' \<notin> set p" "CHR '']'' \<notin> set p"
  shows "SplitHostPort (''['' @ h @ '']:'' @ p) = Inr (h, p)"
proof -
  have i: "LastIndexByte (''['' @ h @ '']:'' @ p) (CHR '':'') = int (length h) + 2"
    using LastIndexByte_last [of "CHR '':''" p "''['' @ h @ '']''"] assms(3) by simp
  have e: "IndexByte (''['' @ h @ '']:'' @ p) (CHR '']'') = int (length h) + 1"
    using IndexByte_first [of "CHR '']''" "''['' @ h" "'':'' @ p"] assms(2) by simp
  have nob: "\<not> 0 \<le> IndexByte (h @ '']:'' @ p) (CHR ''['')"
    "\<not> 0 \<le> IndexByte ('':'' @ p) (CHR '']'')"
    using assms by (simp_all add: IndexByte_ge0_iff del: IndexByte.simps)
  have d: "drop (nat (int (length h) + 1 + 1)) (''['' @ h @ '']:'' @ p) = '':'' @ p"
    by (simp add: nat_add_distrib)
  have d2: "drop (nat (int (length h) + 2 + 1)) (''['' @ h @ '']:'' @ p) = p"
  proof -
    have "nat (int (length h) + 2 + 1) = length (''['' @ h @ '']:'')" by simp
    moreover have "''['' @ h @ '']:'' @ p = (''['' @ h @ '']:'') @ p" by simp
    ultimately show ?thesis by (metis append_eq_conv_conj)
  qed
  show ?thesis
    unfolding SplitHostPort_def Let_def i e using nob d d2
    by (simp add: nat_add_distrib)
qed

lemma trimPort_cases:
  "trimPort hostPort =
     (case SplitHostPort hostPort of
        Inl _ \<Rightarrow> hostPort
      | Inr (h, p) \<Rightarrow> if h = [] then hostPort else h)"
  by (auto simp: trimPort_def Let_def split: sum.splits)

lemma Server_ServeHTTP_RoundTrip:
  "RoundTrip m u msg \<in> set (Server_ServeHTTP env w r) \<Longrightarrow> u = url (trimPort (Host r))"
proof -
  assume sent: "RoundTrip m u msg \<in> set (Server_ServeHTTP env w r)"
  let ?msg = "\<lparr>Action = RequestClientSession, Protocol = HTTP, ForwardedFor = RemoteAddr r,
         ForwardedBy = Host r, URLPath = URL_Path r\<rparr>"
  let ?res = "proxyHTTP env (trimPort (Host r)) w r ?msg"
  obtain evs err where res: "?res = (evs, err)" by (cases ?res) auto
  have serve: "Server_ServeHTTP env w r =
     (case err of None \<Rightarrow> evs
      | Some e \<Rightarrow> evs @ [LoggedMsg ''Error %s: %s'' ?msg, HttpError e 502])"
    using res by (simp add: Server_ServeHTTP_def Let_def)
  from sent have "RoundTrip m u msg \<in> set evs"
    unfolding serve by (cases err) auto
  then have "RoundTrip m u msg \<in> set (fst ?res)"
    using res by simp
  then show "u = url (trimPort (Host r))"
    by (rule proxyHTTP_RoundTrip [THEN conjunct2, THEN conjunct1])
qed

text \<open>
  Claim C10, as the code has it. \<open>trimPort\<close> gives the host that \<open>net.SplitHostPort\<close>
  returns whenever that host is not empty: for \<open>h:p\<close> with a non-empty \<open>h\<close> and no
  colon or bracket in \<open>h\<close> or \<open>p\<close> it gives \<open>h\<close>, and for \<open>[h]:p\<close> it gives \<open>h\<close>
  without the brackets. It gives the input back unchanged when the input does not
  split (a bare host name, for one) and also when it splits with an empty host, as
  \<open>:8080\<close> does. Every round trip of the HTTP entry point goes to the URL of
  \<open>trimPort\<close> of the request's host, so requests for \<open>a.example:8080\<close> and for
  \<open>a.example\<close> both go to \<open>https://a.example\<close>.
\<close>

theorem trimPort_routing_key:
  "(\<forall>h p. SplitHostPort hostPort = Inr (h, p) \<and> h \<noteq> [] \<longrightarrow> trimPort hostPort = h)
   \<and> (\<forall>p. SplitHostPort hostPort = Inr ([], p) \<longrightarrow> trimPort hostPort = hostPort)
   \<and> (\<forall>e. SplitHostPort hostPort = Inl e \<longrightarrow> trimPort hostPort = hostPort)
   \<and> (CHR '':'' \<notin> set hostPort \<longrightarrow> trimPort hostPort = hostPort)
   \<and> (h \<noteq> [] \<and> CHR '':'' \<notin> set h \<and> CHR ''['' \<notin> set h \<and> CHR '']'' \<notin> set h
        \<and> CHR '':'' \<notin> set p \<and> CHR ''['' \<notin> set p \<and> CHR '']'' \<notin> set p \<longrightarrow>
        trimPort (h @ '':'' @ p) = h)
   \<and> (h \<noteq> [] \<and> CHR ''['' \<notin> set h \<and> CHR '']'' \<notin> set h
        \<and> CHR '':'' \<notin> set p \<and> CHR ''['' \<notin> set p \<and> CHR '']'' \<notin> set p \<longrightarrow>
        trimPort (''['' @ h @ '']:'' @ p) = h)
   \<and> trimPort ''a.example:8080'' = ''a.example''
   \<and> trimPort ''a.example'' = ''a.example''
   \<and> (\<forall>m u msg. RoundTrip m u msg \<in> set (Server_ServeHTTP env w r) \<longrightarrow>
         u = url (trimPort (Host r)))"
proof (intro conjI allI impI)
  fix h' p'
  assume "SplitHostPort hostPort = Inr (h', p') \<and> h' \<noteq> []"
  then show "trimPort hostPort = h'" by (simp add: trimPort_cases)
next
  fix p'
  assume "SplitHostPort hostPort = Inr ([], p')"
  then show "trimPort hostPort = hostPort" by (simp add: trimPort_cases)
next
  fix e
  assume "SplitHostPort hostPort = Inl e"
  then show "trimPort hostPort = hostPort" by (simp add: trimPort_cases)
next
  assume "CHR '':'' \<notin> set hostPort"
  then show "trimPort hostPort = hostPort"
    by (simp add: trimPort_cases SplitHostPort_no_colon)
next
  assume "h \<noteq> [] \<and> CHR '':'' \<notin> set h \<and> CHR ''['' \<notin> set h \<and> CHR '']'' \<notin> set h
        \<and> CHR '':'' \<notin> set p \<and> CHR ''['' \<notin> set p \<and> CHR '']'' \<notin> set p"
  then show "trimPort (h @ '':'' @ p) = h"
    by (simp add: trimPort_cases SplitHostPort_plain del: append.simps)
next
  assume "h \<noteq> [] \<and> CHR ''['' \<notin> set h \<and> CHR '']'' \<notin> set h
        \<and> CHR '':'' \<notin> set p \<and> CHR ''['' \<notin> set p \<and> CHR '']'' \<notin> set p"
  then show "trimPort (''['' @ h @ '']:'' @ p) = h"
    by (simp add: trimPort_cases SplitHostPort_bracketed del: append.simps)
next
  show "trimPort ''a.example:8080'' = ''a.example''"
    by (simp add: trimPort_def split_eval)
  show "trimPort ''a.example'' = ''a.example''"
    by (simp add: trimPort_def split_eval)
next
  fix m u msg
  assume "RoundTrip m u msg \<in> set (Server_ServeHTTP env w r)"
  then show "u = url (trimPort (Host r))" by (rule Server_ServeHTTP_RoundTrip)
qed

lemma SplitHostPort_loopback: "SplitHostPort ''[::1]:80'' = Inr (''::1'', ''80'')"
  by (simp add: split_eval)

theorem trimPort_routing_key_witness:
  "SplitHostPort ''[::1]:80'' = Inr (''::1'', ''80'')
   \<and> trimPort ''[::1]:80'' = ''::1''
   \<and> CHR '':'' \<notin> set ''b.example''
   \<and> trimPort ''b.example'' = ''b.example''
   \<and> RoundTrip ''PUT'' ''https://a.example''
        \<lparr>Action = RequestClientSession, Protocol = HTTP,
         ForwardedFor = RemoteAddr public_request, ForwardedBy = Host public_request,
         URLPath = URL_Path public_request\<rparr>
       \<in> set (Server_ServeHTTP dead_tunnel public_sink public_request)
   \<and> ''https://a.example'' = url (trimPort (Host public_request))"
proof -
  have bare: "CHR '':'' \<notin> set ''b.example''" by simp
  have sent: "RoundTrip ''PUT'' ''https://a.example''
        \<lparr>Action = RequestClientSession, Protocol = HTTP,
         ForwardedFor = RemoteAddr public_request, ForwardedBy = Host public_request,
         URLPath = URL_Path public_request\<rparr>
       \<in> set (Server_ServeHTTP dead_tunnel public_sink public_request)"
    by (simp add: Server_ServeHTTP_def Let_def proxyHTTP_dead_tunnel)
  from trimPort_routing_key [of "''[::1]:80''"] SplitHostPort_loopback
  have "trimPort ''[::1]:80'' = ''::1''" by blast
  moreover from trimPort_routing_key [of "''b.example''"] bare
  have "trimPort ''b.example'' = ''b.example''" by blast
  moreover
  from trimPort_routing_key [where env = dead_tunnel and w = public_sink and r = public_request]
    sent
  have "''https://a.example'' = url (trimPort (Host public_request))" by blast
  ultimately show ?thesis using SplitHostPort_loopback bare sent by (intro conjI)
qed

text \<open>
  The claim as written has \<open>trimPort\<close> of \<open>h:p\<close> equal to \<open>h\<close> for every input that
  splits as host and port. The input \<open>:8080\<close> splits, with the empty host and the port
  \<open>8080\<close>, and \<open>trimPort\<close> gives it back whole.
\<close>

theorem trimPort_empty_host:
  "SplitHostPort ([] @ '':'' @ ''8080'') = Inr ([], ''8080'')
   \<and> trimPort ([] @ '':'' @ ''8080'') = '':8080''
   \<and> trimPort ([] @ '':'' @ ''8080'') \<noteq> []"
  by (simp add: trimPort_def split_eval)

end
